theory Spec2Isabelle
  imports Main
begin

section \<open>The syntax tree\<close>

text \<open>
  The plugin works on the syntax tree of \<^verbatim>\<open>@babel/parser\<close>, where every node carries a
  \<^verbatim>\<open>type\<close> tag. The node types that \<^verbatim>\<open>src/index.ts\<close> tests for have a constructor of
  their own, with the child fields in the order of the tree walker. Every other node type
  (a \<^verbatim>\<open>NewExpression\<close>, an \<^verbatim>\<open>OptionalCallExpression\<close>, a \<^verbatim>\<open>JSXElement\<close>, a statement, the
  \<^verbatim>\<open>Program\<close>, ...) is \<open>Other\<close>: its type tag, which is none of the tags with a
  constructor, and its child nodes.

  The name of a \<^verbatim>\<open>JSXAttribute\<close> is typed \<^verbatim>\<open>JSXIdentifier | JSXNamespacedName\<close>; the
  elements of an \<^verbatim>\<open>ArrayExpression\<close> may be \<^verbatim>\<open>null\<close> (holes), as may the value of an
  attribute and the \<^verbatim>\<open>id\<close> of a function expression.
\<close>

datatype jsx_name =
    JSXIdentifier string
  | JSXNamespacedName string string

datatype node =
    CallExpression node "node list"
  | TemplateLiteral "string list" "node list"
  | ConditionalExpression node node node
  | LogicalExpression string node node
  | BinaryExpression string node node
  | UnaryExpression string node
  | MemberExpression node node bool
  | ArrayExpression "node option list"
  | ObjectExpression "node list"
  | ObjectProperty node node bool bool
  | SpreadElement node
  | ArrowFunctionExpression "node list" node
  | FunctionExpression "node option" "node list" node
  | Identifier string
  | StringLiteral string
  | JSXAttribute jsx_name "node option"
  | JSXExpressionContainer node
  | JSXEmptyExpression
  | Other string "node list"

text \<open>
  The fields are: \<open>CallExpression callee arguments\<close>, \<open>TemplateLiteral quasis expressions\<close>,
  \<open>ConditionalExpression test consequent alternate\<close>, \<open>LogicalExpression operator left right\<close>,
  \<open>BinaryExpression operator left right\<close>, \<open>UnaryExpression operator argument\<close>,
  \<open>MemberExpression object property computed\<close>, \<open>ArrayExpression elements\<close>,
  \<open>ObjectExpression properties\<close>, \<open>ObjectProperty key value computed shorthand\<close>,
  \<open>SpreadElement argument\<close>, \<open>ArrowFunctionExpression params body\<close>,
  \<open>FunctionExpression id params body\<close>, \<open>JSXAttribute name value\<close>,
  \<open>JSXExpressionContainer expression\<close>.
\<close>

subsection \<open>The type tests of \<^verbatim>\<open>@babel/types\<close>\<close>

fun isCallExpression :: "node \<Rightarrow> bool" where
  "isCallExpression (CallExpression callee args) = True"
| "isCallExpression _ = False"

fun isArrowFunctionExpression :: "node \<Rightarrow> bool" where
  "isArrowFunctionExpression (ArrowFunctionExpression params body) = True"
| "isArrowFunctionExpression _ = False"

fun isFunctionExpression :: "node \<Rightarrow> bool" where
  "isFunctionExpression (FunctionExpression ident params body) = True"
| "isFunctionExpression _ = False"

fun isJSXEmptyExpression :: "node \<Rightarrow> bool" where
  "isJSXEmptyExpression JSXEmptyExpression = True"
| "isJSXEmptyExpression _ = False"

fun isJSXExpressionContainer :: "node \<Rightarrow> bool" where
  "isJSXExpressionContainer (JSXExpressionContainer expression) = True"
| "isJSXExpressionContainer _ = False"

section \<open>The call detector\<close>

text \<open>
  \<^verbatim>\<open>containsCall\<close>, lines 33 to 63. \<^verbatim>\<open>Array.prototype.some\<close> is \<open>list_ex\<close>; the equations
  are in the order of the source's tests, and the last one is its final \<^verbatim>\<open>return false\<close>.
\<close>

fun containsCall :: "node \<Rightarrow> bool" where
  "containsCall (CallExpression callee args) = True"
| "containsCall (TemplateLiteral quasis expressions) =
     list_ex (\<lambda>expr. containsCall expr) expressions"
| "containsCall (ConditionalExpression test consequent alternate) =
     (containsCall test \<or> containsCall consequent \<or> containsCall alternate)"
| "containsCall (LogicalExpression operator left right) =
     (containsCall left \<or> containsCall right)"
| "containsCall (BinaryExpression operator left right) =
     (containsCall left \<or> containsCall right)"
| "containsCall (UnaryExpression operator argument) = containsCall argument"
| "containsCall (MemberExpression object property computed) = containsCall object"
| "containsCall (ArrayExpression elements) =
     list_ex (\<lambda>el. case el of None \<Rightarrow> False | Some e \<Rightarrow> containsCall e) elements"
| "containsCall (ObjectExpression properties) =
     list_ex (\<lambda>prop. case prop of
                 ObjectProperty key val computed shorthand \<Rightarrow> containsCall val
               | _ \<Rightarrow> False) properties"
| "containsCall _ = False"

section \<open>The skip classifier\<close>

text \<open>
  \<^verbatim>\<open>String.prototype.startsWith\<close> and \<^verbatim>\<open>endsWith\<close> on lists of characters. An attribute
  name is a list of code units; the three tests of \<^verbatim>\<open>shouldSkip\<close> (a prefix of two ASCII
  characters, more than two units, equality with an ASCII word) give the same answer on
  the UTF-16 units of the source and on the bytes of \<^typ>\<open>string\<close>.
\<close>

definition startsWith :: "string \<Rightarrow> string \<Rightarrow> bool" where
  "startsWith s p = (take (length p) s = p)"

definition endsWith :: "string \<Rightarrow> string \<Rightarrow> bool" where
  "endsWith s p = (length p \<le> length s \<and> drop (length s - length p) s = p)"

text \<open>\<^verbatim>\<open>shouldSkip\<close>, lines 71 to 77.\<close>

definition shouldSkip :: "string \<Rightarrow> node \<Rightarrow> bool" where
  "shouldSkip attrName valueNode =
     (if startsWith attrName ''on'' \<and> length attrName > 2 then True
      else if attrName = ''ref'' then True
      else if isArrowFunctionExpression valueNode then True
      else if isFunctionExpression valueNode then True
      else False)"

section \<open>The attribute rewrite driver\<close>

text \<open>
  The \<^verbatim>\<open>JSXAttribute\<close> visitor of \<^verbatim>\<open>transform\<close>, lines 112 to 134. The canonical name
  (lines 116 to 118) is the identifier, or \<^verbatim>\<open>namespace:local\<close> for a namespaced name.
\<close>

definition attrName :: "jsx_name \<Rightarrow> string" where
  "attrName name =
     (case name of
        JSXIdentifier n \<Rightarrow> n
      | JSXNamespacedName namespace local \<Rightarrow> namespace @ '':'' @ local)"

text \<open>
  The visitor reads \<^verbatim>\<open>path.node\<close>, may assign \<^verbatim>\<open>value.expression\<close> and may set the
  variable \<^verbatim>\<open>changed\<close> of the enclosing \<^verbatim>\<open>transform\<close>. The state it works on is the
  attribute's value and that flag; it returns both. The parser's tree shares no node, so
  the assignment to the container's field is an update of the attribute's value.
\<close>

definition JSXAttribute_visitor :: "jsx_name \<Rightarrow> node option \<Rightarrow> bool \<Rightarrow> node option \<times> bool" where
  "JSXAttribute_visitor name val changed =
     (case val of
        Some (JSXExpressionContainer expr) \<Rightarrow>
          if isJSXEmptyExpression expr then (val, changed)
          else if shouldSkip (attrName name) expr then (val, changed)
          else if \<not> containsCall expr then (val, changed)
          else (Some (JSXExpressionContainer (ArrowFunctionExpression [] expr)), True)
      | _ \<Rightarrow> (val, changed))"

text \<open>
  The walk of \<^verbatim>\<open>@babel/traverse\<close> over the tree, its \<^verbatim>\<open>traverseNode\<close>: it enters every
  node, calls the visitor on entering a \<^verbatim>\<open>JSXAttribute\<close>, and then walks the child fields
  of the node as they are after the call, in field order. The flag \<^verbatim>\<open>changed\<close> is threaded
  through the walk.
\<close>

lemma visitor_size:
  "size_option size (fst (JSXAttribute_visitor name val changed)) \<le> Suc (size_option size val)"
  by (auto simp: JSXAttribute_visitor_def split: option.splits node.splits)

function traverseNode :: "node \<Rightarrow> bool \<Rightarrow> node \<times> bool"
  and traverseNode_list :: "node list \<Rightarrow> bool \<Rightarrow> node list \<times> bool"
  and traverseNode_opt :: "node option \<Rightarrow> bool \<Rightarrow> node option \<times> bool"
  and traverseNode_opts :: "node option list \<Rightarrow> bool \<Rightarrow> node option list \<times> bool"
where
  "traverseNode (CallExpression callee args) ch =
     (case traverseNode callee ch of (callee', ch1) \<Rightarrow>
      case traverseNode_list args ch1 of (args', ch2) \<Rightarrow>
        (CallExpression callee' args', ch2))"
| "traverseNode (TemplateLiteral quasis expressions) ch =
     (case traverseNode_list expressions ch of (expressions', ch1) \<Rightarrow>
        (TemplateLiteral quasis expressions', ch1))"
| "traverseNode (ConditionalExpression test consequent alternate) ch =
     (case traverseNode test ch of (test', ch1) \<Rightarrow>
      case traverseNode consequent ch1 of (consequent', ch2) \<Rightarrow>
      case traverseNode alternate ch2 of (alternate', ch3) \<Rightarrow>
        (ConditionalExpression test' consequent' alternate', ch3))"
| "traverseNode (LogicalExpression operator left right) ch =
     (case traverseNode left ch of (left', ch1) \<Rightarrow>
      case traverseNode right ch1 of (right', ch2) \<Rightarrow>
        (LogicalExpression operator left' right', ch2))"
| "traverseNode (BinaryExpression operator left right) ch =
     (case traverseNode left ch of (left', ch1) \<Rightarrow>
      case traverseNode right ch1 of (right', ch2) \<Rightarrow>
        (BinaryExpression operator left' right', ch2))"
| "traverseNode (UnaryExpression operator argument) ch =
     (case traverseNode argument ch of (argument', ch1) \<Rightarrow>
        (UnaryExpression operator argument', ch1))"
| "traverseNode (MemberExpression object property computed) ch =
     (case traverseNode object ch of (object', ch1) \<Rightarrow>
      case traverseNode property ch1 of (property', ch2) \<Rightarrow>
        (MemberExpression object' property' computed, ch2))"
| "traverseNode (ArrayExpression elements) ch =
     (case traverseNode_opts elements ch of (elements', ch1) \<Rightarrow>
        (ArrayExpression elements', ch1))"
| "traverseNode (ObjectExpression properties) ch =
     (case traverseNode_list properties ch of (properties', ch1) \<Rightarrow>
        (ObjectExpression properties', ch1))"
| "traverseNode (ObjectProperty key val computed shorthand) ch =
     (case traverseNode key ch of (key', ch1) \<Rightarrow>
      case traverseNode val ch1 of (val', ch2) \<Rightarrow>
        (ObjectProperty key' val' computed shorthand, ch2))"
| "traverseNode (SpreadElement argument) ch =
     (case traverseNode argument ch of (argument', ch1) \<Rightarrow>
        (SpreadElement argument', ch1))"
| "traverseNode (ArrowFunctionExpression params body) ch =
     (case traverseNode_list params ch of (params', ch1) \<Rightarrow>
      case traverseNode body ch1 of (body', ch2) \<Rightarrow>
        (ArrowFunctionExpression params' body', ch2))"
| "traverseNode (FunctionExpression ident params body) ch =
     (case traverseNode_opt ident ch of (ident', ch1) \<Rightarrow>
      case traverseNode_list params ch1 of (params', ch2) \<Rightarrow>
      case traverseNode body ch2 of (body', ch3) \<Rightarrow>
        (FunctionExpression ident' params' body', ch3))"
| "traverseNode (Identifier name) ch = (Identifier name, ch)"
| "traverseNode (StringLiteral s) ch = (StringLiteral s, ch)"
| "traverseNode (JSXAttribute name val) ch =
     (case JSXAttribute_visitor name val ch of (val1, ch1) \<Rightarrow>
      case traverseNode_opt val1 ch1 of (val2, ch2) \<Rightarrow>
        (JSXAttribute name val2, ch2))"
| "traverseNode (JSXExpressionContainer expression) ch =
     (case traverseNode expression ch of (expression', ch1) \<Rightarrow>
        (JSXExpressionContainer expression', ch1))"
| "traverseNode JSXEmptyExpression ch = (JSXEmptyExpression, ch)"
| "traverseNode (Other tag children) ch =
     (case traverseNode_list children ch of (children', ch1) \<Rightarrow> (Other tag children', ch1))"
| "traverseNode_list [] ch = ([], ch)"
| "traverseNode_list (n # ns) ch =
     (case traverseNode n ch of (n', ch1) \<Rightarrow>
      case traverseNode_list ns ch1 of (ns', ch2) \<Rightarrow> (n' # ns', ch2))"
| "traverseNode_opt None ch = (None, ch)"
| "traverseNode_opt (Some n) ch =
     (case traverseNode n ch of (n', ch1) \<Rightarrow> (Some n', ch1))"
| "traverseNode_opts [] ch = ([], ch)"
| "traverseNode_opts (v # vs) ch =
     (case traverseNode_opt v ch of (v', ch1) \<Rightarrow>
      case traverseNode_opts vs ch1 of (vs', ch2) \<Rightarrow> (v' # vs', ch2))"
  by pat_completeness auto
termination
  apply (relation "measure (\<lambda>x. case x of
      Inl (Inl (n, ch)) \<Rightarrow> 2 * size n + 1
    | Inl (Inr (ns, ch)) \<Rightarrow> 2 * size_list size ns
    | Inr (Inl (v, ch)) \<Rightarrow> 2 * size_option size v
    | Inr (Inr (vs, ch)) \<Rightarrow> 2 * size_list (size_option size) vs)")
                      apply simp_all
  subgoal for name val ch x y
    using visitor_size [of name val ch] by (simp add: split_beta)
  done

text \<open>
  What the source may raise. Only the parser's exception is caught (lines 98 to 107); an
  exception of the walker (line 111) or of the generator (line 139) leaves \<^verbatim>\<open>transform\<close>
  as it is, so it is a result of the model.
\<close>

datatype error = TypeError string | Error string

text \<open>
  \<^verbatim>\<open>traverse(ast, { JSXAttribute(path) {...} })\<close>, line 111. On entering the program, and
  before the visitor is called on any attribute, the walker builds the scopes of the
  program, and raises a \<^verbatim>\<open>TypeError\<close> when that fails (a name declared twice in one
  scope, for instance), on a tree that the parser accepted. Scope building is internal to
  \<^verbatim>\<open>@babel/traverse\<close>, so its verdict on a tree is the parameter \<open>crawl\<close>: \<open>None\<close> when
  the scopes are built, the error otherwise. When the scopes are built, the walk above
  runs.
\<close>

definition traverse :: "(node \<Rightarrow> error option) \<Rightarrow> node \<Rightarrow> bool \<Rightarrow> error + node \<times> bool" where
  "traverse crawl ast changed =
     (case crawl ast of
        Some e \<Rightarrow> Inl e
      | None \<Rightarrow> Inr (traverseNode ast changed))"

section \<open>The file transform\<close>

text \<open>
  The parser and the generator are collaborators from outside the repository, so
  \<^verbatim>\<open>transform\<close> takes them as parameters, next to \<open>crawl\<close>. \<open>parse code\<close> is \<open>None\<close>
  when \<^verbatim>\<open>@babel/parser\<close> throws. \<open>generate ast opts code\<close> is the error that
  \<^verbatim>\<open>@babel/generator\<close> raises, or its result object, of which the plugin reads the fields
  \<^verbatim>\<open>code\<close> and \<^verbatim>\<open>map\<close>. The options object of line 139 sets \<^verbatim>\<open>retainLines\<close> and nothing
  else, so \<^verbatim>\<open>sourceMaps\<close> has its default, false. The model returns the error raised, or
  the calls made to parser and generator, in order, together with the result; \<open>None\<close>
  is the \<^verbatim>\<open>null\<close> of the source.
\<close>

record generator_options =
  retainLines :: bool
  sourceMaps :: bool

record 'm generated =
  code_of :: string
  map_of :: 'm

datatype call = Parse string | Generate node

definition transform ::
  "(string \<Rightarrow> node option) \<Rightarrow> (node \<Rightarrow> error option) \<Rightarrow>
   (node \<Rightarrow> generator_options \<Rightarrow> string \<Rightarrow> error + 'm generated) \<Rightarrow>
   string \<Rightarrow> string \<Rightarrow> error + call list \<times> 'm generated option" where
  "transform parse crawl generate code ident =
     (if \<not> endsWith ident ''.jsx'' \<and> \<not> endsWith ident ''.tsx'' then Inr ([], None)
      else
        case parse code of
          None \<Rightarrow> Inr ([Parse code], None)
        | Some ast \<Rightarrow>
            (case traverse crawl ast False of
               Inl e \<Rightarrow> Inl e
             | Inr (ast', changed) \<Rightarrow>
                 if \<not> changed then Inr ([Parse code], None)
                 else
                   (case generate ast' \<lparr>retainLines = True, sourceMaps = False\<rparr> code of
                      Inl e \<Rightarrow> Inl e
                    | Inr result \<Rightarrow>
                        Inr ([Parse code, Generate ast'],
                             Some \<lparr>code_of = code_of result, map_of = map_of result\<rparr>))))"

section \<open>The rewritten tree, as the specification describes it\<close>

text \<open>
  The specification (sections 4.3 and 8) describes the tree after the pass: the tree
  before it, with a thunk inserted around the expression of every attribute that
  qualifies (an expression container whose expression is no empty placeholder, is not
  skipped and contains a call), and nothing else changed. \<open>spec_thunked\<close> is that
  description; the walker of the source is compared with it below.
\<close>

fun spec_thunked :: "node \<Rightarrow> node" where
  "spec_thunked (CallExpression callee args) = CallExpression (spec_thunked callee) (map spec_thunked args)"
| "spec_thunked (TemplateLiteral quasis expressions) = TemplateLiteral quasis (map spec_thunked expressions)"
| "spec_thunked (ConditionalExpression test consequent alternate) =
     ConditionalExpression (spec_thunked test) (spec_thunked consequent) (spec_thunked alternate)"
| "spec_thunked (LogicalExpression operator left right) =
     LogicalExpression operator (spec_thunked left) (spec_thunked right)"
| "spec_thunked (BinaryExpression operator left right) =
     BinaryExpression operator (spec_thunked left) (spec_thunked right)"
| "spec_thunked (UnaryExpression operator argument) = UnaryExpression operator (spec_thunked argument)"
| "spec_thunked (MemberExpression object property computed) =
     MemberExpression (spec_thunked object) (spec_thunked property) computed"
| "spec_thunked (ArrayExpression elements) = ArrayExpression (map (map_option spec_thunked) elements)"
| "spec_thunked (ObjectExpression properties) = ObjectExpression (map spec_thunked properties)"
| "spec_thunked (ObjectProperty key val computed shorthand) =
     ObjectProperty (spec_thunked key) (spec_thunked val) computed shorthand"
| "spec_thunked (SpreadElement argument) = SpreadElement (spec_thunked argument)"
| "spec_thunked (ArrowFunctionExpression params body) =
     ArrowFunctionExpression (map spec_thunked params) (spec_thunked body)"
| "spec_thunked (FunctionExpression ident params body) =
     FunctionExpression (map_option spec_thunked ident) (map spec_thunked params) (spec_thunked body)"
| "spec_thunked (Identifier name) = Identifier name"
| "spec_thunked (StringLiteral s) = StringLiteral s"
| "spec_thunked (JSXAttribute name (Some (JSXExpressionContainer expr))) =
     JSXAttribute name (Some (JSXExpressionContainer
       (if \<not> isJSXEmptyExpression expr \<and> \<not> shouldSkip (attrName name) expr \<and> containsCall expr
        then ArrowFunctionExpression [] (spec_thunked expr)
        else spec_thunked expr)))"
| "spec_thunked (JSXAttribute name None) = JSXAttribute name None"
| "spec_thunked (JSXAttribute name (Some v)) = JSXAttribute name (Some (spec_thunked v))"
| "spec_thunked (JSXExpressionContainer expression) = JSXExpressionContainer (spec_thunked expression)"
| "spec_thunked JSXEmptyExpression = JSXEmptyExpression"
| "spec_thunked (Other tag children) = Other tag (map spec_thunked children)"

text \<open>
  The test that \<^verbatim>\<open>containsCall\<close> applies to one entry of an object expression
  (lines 56 to 59).
\<close>

definition propertyCall :: "node \<Rightarrow> bool" where
  "propertyCall prop =
     (case prop of ObjectProperty key val computed shorthand \<Rightarrow> containsCall val | _ \<Rightarrow> False)"

text \<open>
  The subtrees that the specification (section 4.1) lists for each kind of node that the
  detector looks into: the interpolated expressions of a template literal; test,
  consequent and alternate of a conditional; the two operands of a logical or binary
  expression; the operand of a unary expression; the object of a member expression; the
  elements of an array that are no holes; the values of the property entries of an
  object. Every other kind has none.
\<close>

fun spec_checked_subtrees :: "node \<Rightarrow> node list" where
  "spec_checked_subtrees (TemplateLiteral quasis expressions) = expressions"
| "spec_checked_subtrees (ConditionalExpression test consequent alternate) =
     [test, consequent, alternate]"
| "spec_checked_subtrees (LogicalExpression operator left right) = [left, right]"
| "spec_checked_subtrees (BinaryExpression operator left right) = [left, right]"
| "spec_checked_subtrees (UnaryExpression operator argument) = [argument]"
| "spec_checked_subtrees (MemberExpression object property computed) = [object]"
| "spec_checked_subtrees (ArrayExpression elements) =
     concat (map (\<lambda>el. case el of None \<Rightarrow> [] | Some e \<Rightarrow> [e]) elements)"
| "spec_checked_subtrees (ObjectExpression properties) =
     concat (map (\<lambda>prop. case prop of
                     ObjectProperty key val computed shorthand \<Rightarrow> [val]
                   | _ \<Rightarrow> []) properties)"
| "spec_checked_subtrees _ = []"

section \<open>The walker computes the rewritten tree\<close>

text \<open>
  The walk returns the tree of \<open>spec_thunked\<close>, and its flag is set exactly when that
  tree differs from the one it started on. The proof follows the recursion of the walker;
  the case of an attribute splits on whether the visitor wraps.
\<close>

lemma traverseNode_thunked:
  "traverseNode n ch = (spec_thunked n, ch \<or> spec_thunked n \<noteq> n)"
  "traverseNode_list ns ch = (map spec_thunked ns, ch \<or> map spec_thunked ns \<noteq> ns)"
  "traverseNode_opt v ch = (map_option spec_thunked v, ch \<or> map_option spec_thunked v \<noteq> v)"
  "traverseNode_opts vs ch = (map (map_option spec_thunked) vs, ch \<or> map (map_option spec_thunked) vs \<noteq> vs)"
proof (induction n ch and ns ch and v ch and vs ch
    rule: traverseNode_traverseNode_list_traverseNode_opt_traverseNode_opts.induct)
  case (16 name val ch)
  show ?case
  proof (cases "\<exists>expr. val = Some (JSXExpressionContainer expr)")
    case True
    then obtain expr where v: "val = Some (JSXExpressionContainer expr)" by blast
    show ?thesis
    proof (cases "\<not> isJSXEmptyExpression expr \<and> \<not> shouldSkip (attrName name) expr \<and> containsCall expr")
      case True
      then have vis: "JSXAttribute_visitor name val ch =
          (Some (JSXExpressionContainer (ArrowFunctionExpression [] expr)), True)"
        by (simp add: v JSXAttribute_visitor_def)
      from True have "\<not> isArrowFunctionExpression expr"
        by (auto simp: shouldSkip_def split: if_splits)
      then have ne: "ArrowFunctionExpression [] (spec_thunked expr) \<noteq> expr"
        by (cases expr) auto
      from 16 [OF vis [symmetric]] vis True ne show ?thesis
        by (simp add: v)
    next
      case False
      then have vis: "JSXAttribute_visitor name val ch = (val, ch)"
        by (auto simp add: v JSXAttribute_visitor_def)
      from 16 [OF vis [symmetric]] vis False show ?thesis
        by (auto simp add: v)
    qed
  next
    case False
    then have vis: "JSXAttribute_visitor name val ch = (val, ch)"
      by (auto simp add: JSXAttribute_visitor_def split: option.splits node.splits)
    from False have th: "spec_thunked (JSXAttribute name val) = JSXAttribute name (map_option spec_thunked val)"
      by (cases val; cases "the val") auto
    from 16 [OF vis [symmetric]] vis show ?thesis
      by (simp add: th)
  qed
qed (auto split: prod.splits)

lemma thunked_attr_other:
  "\<not> isJSXExpressionContainer v \<Longrightarrow>
   spec_thunked (JSXAttribute name (Some v)) = JSXAttribute name (Some (spec_thunked v))"
  by (cases v) simp_all

lemma thunked_container [simp]:
  "isJSXExpressionContainer (spec_thunked n) = isJSXExpressionContainer n"
  by (induction n rule: spec_thunked.induct) simp_all

lemma thunked_kind [simp]:
  "isArrowFunctionExpression (spec_thunked n) = isArrowFunctionExpression n"
  "isFunctionExpression (spec_thunked n) = isFunctionExpression n"
  "isJSXEmptyExpression (spec_thunked n) = isJSXEmptyExpression n"
  by (induction n rule: spec_thunked.induct) simp_all

lemma shouldSkip_thunked [simp]: "shouldSkip name (spec_thunked n) = shouldSkip name n"
  by (simp add: shouldSkip_def)

lemma shouldSkip_arrow [simp]: "shouldSkip name (ArrowFunctionExpression params body)"
  by (simp add: shouldSkip_def)

lemma containsCall_thunked_aux:
  "containsCall (spec_thunked n) = containsCall n \<and> propertyCall (spec_thunked n) = propertyCall n"
proof (induction n rule: spec_thunked.induct)
  case (8 elements)
  have "(case map_option spec_thunked el of None \<Rightarrow> False | Some e \<Rightarrow> containsCall e) =
        (case el of None \<Rightarrow> False | Some e \<Rightarrow> containsCall e)" if "el \<in> set elements" for el
    using 8 that by (cases el) auto
  then show ?case
    by (simp add: propertyCall_def list_ex_iff)
next
  case (9 properties)
  then have "propertyCall (spec_thunked p) = propertyCall p" if "p \<in> set properties" for p
    using that by simp
  then show ?case
    by (simp add: propertyCall_def [abs_def] list_ex_iff)
qed (simp_all add: propertyCall_def list_ex_iff)

lemma containsCall_thunked [simp]: "containsCall (spec_thunked n) = containsCall n"
  by (simp add: containsCall_thunked_aux)

lemma thunked_idem [simp]: "spec_thunked (spec_thunked n) = spec_thunked n"
proof (induction n rule: spec_thunked.induct)
  case (8 elements)
  have "map_option spec_thunked (map_option spec_thunked el) = map_option spec_thunked el"
    if "el \<in> set elements" for el
    using 8 that by (cases el) auto
  then show ?case by simp
next
  case (13 ident params body)
  then have "map_option spec_thunked (map_option spec_thunked ident) = map_option spec_thunked ident"
    by (cases ident) auto
  with 13 show ?case by simp
qed (simp_all add: thunked_attr_other)


section \<open>Facts about the detector, the classifier, the visitor and the transform\<close>

lemma list_ex_elements:
  "list_ex (\<lambda>el. case el of None \<Rightarrow> False | Some e \<Rightarrow> containsCall e) elements =
   list_ex containsCall (concat (map (\<lambda>el. case el of None \<Rightarrow> [] | Some e \<Rightarrow> [e]) elements))"
  by (induction elements) (auto split: option.splits)

lemma list_ex_properties:
  "list_ex propertyCall properties =
   list_ex containsCall (concat (map (\<lambda>prop. case prop of
                     ObjectProperty key val computed shorthand \<Rightarrow> [val]
                   | _ \<Rightarrow> []) properties))"
  by (induction properties) (auto simp: propertyCall_def split: node.splits)

lemma containsCall_ObjectExpression:
  "containsCall (ObjectExpression properties) = list_ex propertyCall properties"
  by (simp add: propertyCall_def [abs_def])

lemma startsWith_on:
  "(startsWith name ''on'' \<and> 2 < length name) = (\<exists>c cs. name = CHR ''o'' # CHR ''n'' # c # cs)"
proof (cases name)
  case Nil
  then show ?thesis by (simp add: startsWith_def)
next
  case (Cons a as)
  note outer = this
  show ?thesis
  proof (cases as)
    case Nil
    with outer show ?thesis by (simp add: startsWith_def)
  next
    case (Cons b bs)
    with outer show ?thesis by (cases bs) (auto simp: startsWith_def)
  qed
qed

lemma arrow_neq: "ArrowFunctionExpression params e \<noteq> e"
proof
  assume "ArrowFunctionExpression params e = e"
  then have "size (ArrowFunctionExpression params e) = size e" by simp
  then show False by simp
qed

lemma visitor_wrap:
  "\<not> isJSXEmptyExpression expr \<Longrightarrow> \<not> shouldSkip (attrName name) expr \<Longrightarrow> containsCall expr \<Longrightarrow>
   JSXAttribute_visitor name (Some (JSXExpressionContainer expr)) changed =
     (Some (JSXExpressionContainer (ArrowFunctionExpression [] expr)), True)"
  by (simp add: JSXAttribute_visitor_def)

lemma visitor_keep:
  "\<not> (\<exists>expr. val = Some (JSXExpressionContainer expr) \<and> \<not> isJSXEmptyExpression expr
        \<and> \<not> shouldSkip (attrName name) expr \<and> containsCall expr) \<Longrightarrow>
   JSXAttribute_visitor name val changed = (val, changed)"
  by (auto simp: JSXAttribute_visitor_def split: option.splits node.splits)

lemma propertyCall_iff:
  "propertyCall p =
   (\<exists>key val computed shorthand. p = ObjectProperty key val computed shorthand \<and> containsCall val)"
  by (cases p) (simp_all add: propertyCall_def)

lemma list_ex_propertyCall:
  "list_ex propertyCall properties =
   (\<exists>key val computed shorthand.
      ObjectProperty key val computed shorthand \<in> set properties \<and> containsCall val)"
  unfolding list_ex_iff propertyCall_iff by blast

lemma traverse_thunked:
  "traverse crawl n ch =
     (case crawl n of
        Some e \<Rightarrow> Inl e
      | None \<Rightarrow> Inr (spec_thunked n, ch \<or> spec_thunked n \<noteq> n))"
  by (simp add: traverse_def traverseNode_thunked split: option.splits)


lemma visitor_skip:
  "shouldSkip (attrName name) expr \<Longrightarrow>
   JSXAttribute_visitor name (Some (JSXExpressionContainer expr)) changed =
     (Some (JSXExpressionContainer expr), changed)"
  by (simp add: JSXAttribute_visitor_def)

section \<open>The claims\<close>

text \<open>
  C1. For every expression node, \<open>containsCall\<close> is true iff the node is a call
  expression, or \<open>containsCall\<close> holds of one of the subtrees the specification lists
  for its kind (template literal: an interpolated expression; conditional: test,
  consequent or alternate; logical and binary: an operand; unary: the operand; member:
  the object only; array: an element that is no hole; object: the value of a property
  entry). For every other kind, arrow functions and function expressions with a call in
  their body among them, it is false.
\<close>

theorem containsCall_listed_subtrees:
  "containsCall n = (isCallExpression n \<or> list_ex containsCall (spec_checked_subtrees n))
   \<and> \<not> containsCall (ArrowFunctionExpression params body)
   \<and> \<not> containsCall (FunctionExpression ident params body)
   \<and> \<not> containsCall (ObjectProperty key val computed shorthand)
   \<and> \<not> containsCall (SpreadElement argument)
   \<and> \<not> containsCall (Identifier x)
   \<and> \<not> containsCall (StringLiteral s)
   \<and> \<not> containsCall (JSXAttribute name v)
   \<and> \<not> containsCall (JSXExpressionContainer expression)
   \<and> \<not> containsCall JSXEmptyExpression
   \<and> \<not> containsCall (Other tag children)"
proof -
  have "containsCall n = (isCallExpression n \<or> list_ex containsCall (spec_checked_subtrees n))"
  proof (cases n)
    case (ArrayExpression elements)
    then show ?thesis by (simp add: list_ex_elements)
  next
    case (ObjectExpression properties)
    then show ?thesis
      by (simp only: containsCall_ObjectExpression list_ex_properties
          spec_checked_subtrees.simps isCallExpression.simps simp_thms)
  qed (simp_all add: list_ex_iff)
  then show ?thesis by simp
qed

theorem containsCall_listed_subtrees_witness:
  "containsCall (ConditionalExpression (CallExpression (Identifier ''active'') [])
                   (StringLiteral ''a'') (StringLiteral ''b''))
   \<and> \<not> containsCall (ArrowFunctionExpression [] (CallExpression (Identifier ''computeStyle'') []))
   \<and> \<not> containsCall (MemberExpression (Identifier ''a'') (CallExpression (Identifier ''f'') []) True)
   \<and> \<not> containsCall (Other ''NewExpression'' [Identifier ''Foo''])"
  using containsCall_listed_subtrees [of
      "ConditionalExpression (CallExpression (Identifier ''active'') [])
         (StringLiteral ''a'') (StringLiteral ''b'')"
      "[]" "CallExpression (Identifier ''computeStyle'') []"]
    containsCall_listed_subtrees [of
      "MemberExpression (Identifier ''a'') (CallExpression (Identifier ''f'') []) True"]
    containsCall_listed_subtrees [of "Other ''NewExpression'' [Identifier ''Foo'']"]
  by simp

text \<open>
  C3. \<open>shouldSkip name expr\<close> is true iff the name is \<open>on\<close> followed by at least one
  more character, or the name is exactly \<open>ref\<close>, or the expression is an arrow function,
  or it is a function expression (with or without a name).
\<close>

theorem shouldSkip_iff:
  "shouldSkip name expr =
     ((\<exists>c cs. name = CHR ''o'' # CHR ''n'' # c # cs)
      \<or> name = ''ref''
      \<or> (\<exists>params body. expr = ArrowFunctionExpression params body)
      \<or> (\<exists>ident params body. expr = FunctionExpression ident params body))"
proof -
  have a: "isArrowFunctionExpression expr = (\<exists>params body. expr = ArrowFunctionExpression params body)"
    by (cases expr) simp_all
  have f: "isFunctionExpression expr = (\<exists>ident params body. expr = FunctionExpression ident params body)"
    by (cases expr) simp_all
  show ?thesis
    unfolding startsWith_on [symmetric] a [symmetric] f [symmetric]
    by (simp add: shouldSkip_def)
qed

theorem shouldSkip_iff_witness:
  "shouldSkip ''onClick'' (CallExpression (Identifier ''handleClick'') [])
   \<and> shouldSkip ''online'' (Identifier ''x'')
   \<and> shouldSkip ''ref'' (Identifier ''x'')
   \<and> \<not> shouldSkip ''on'' (Identifier ''x'')
   \<and> \<not> shouldSkip ''class'' (CallExpression (Identifier ''f'') [])"
  using shouldSkip_iff [of "''onClick''" "CallExpression (Identifier ''handleClick'') []"]
    shouldSkip_iff [of "''online''" "Identifier ''x''"]
    shouldSkip_iff [of "''ref''" "Identifier ''x''"]
    shouldSkip_iff [of "''on''" "Identifier ''x''"]
    shouldSkip_iff [of "''class''" "CallExpression (Identifier ''f'') []"]
  by simp

text \<open>
  C2. The visitor replaces the expression of an attribute by a thunk, and sets the flag
  \<^verbatim>\<open>changed\<close>, iff the attribute's value is an expression container whose expression is
  no empty placeholder, \<open>shouldSkip\<close> is false of the canonical name and the expression,
  and \<open>containsCall\<close> is true of the expression. In every other case (no value, a static
  literal or an element as value, an empty placeholder, a skipped attribute, no call) the
  value and the flag are returned as they were.
\<close>

theorem JSXAttribute_visitor_wraps_iff:
  "((\<exists>expr. val = Some (JSXExpressionContainer expr) \<and>
       JSXAttribute_visitor name val changed =
         (Some (JSXExpressionContainer (ArrowFunctionExpression [] expr)), True))
    = (\<exists>expr. val = Some (JSXExpressionContainer expr) \<and> \<not> isJSXEmptyExpression expr
         \<and> \<not> shouldSkip (attrName name) expr \<and> containsCall expr))
   \<and> (\<not> (\<exists>expr. val = Some (JSXExpressionContainer expr) \<and> \<not> isJSXEmptyExpression expr
         \<and> \<not> shouldSkip (attrName name) expr \<and> containsCall expr)
      \<longrightarrow> JSXAttribute_visitor name val changed = (val, changed))"
proof (cases "\<exists>expr. val = Some (JSXExpressionContainer expr) \<and> \<not> isJSXEmptyExpression expr
         \<and> \<not> shouldSkip (attrName name) expr \<and> containsCall expr")
  case True
  then show ?thesis by (auto simp: visitor_wrap)
next
  case False
  from visitor_keep [OF False] have k: "JSXAttribute_visitor name val changed = (val, changed)" .
  have "\<not> (\<exists>expr. val = Some (JSXExpressionContainer expr) \<and>
       JSXAttribute_visitor name val changed =
         (Some (JSXExpressionContainer (ArrowFunctionExpression [] expr)), True))"
    using arrow_neq by (auto simp: k)
  with False k show ?thesis by blast
qed

theorem JSXAttribute_visitor_wraps_iff_witness:
  "JSXAttribute_visitor (JSXIdentifier ''disabled'')
     (Some (JSXExpressionContainer (CallExpression (Identifier ''isDisabled'') []))) False =
     (Some (JSXExpressionContainer
        (ArrowFunctionExpression [] (CallExpression (Identifier ''isDisabled'') []))), True)
   \<and> \<not> containsCall (Identifier ''count'')
   \<and> JSXAttribute_visitor (JSXIdentifier ''value'')
       (Some (JSXExpressionContainer (Identifier ''count''))) False =
       (Some (JSXExpressionContainer (Identifier ''count'')), False)
   \<and> JSXAttribute_visitor (JSXIdentifier ''title'') (Some (StringLiteral ''t'')) False =
       (Some (StringLiteral ''t''), False)
   \<and> JSXAttribute_visitor (JSXIdentifier ''checked'') None False = (None, False)"
  using JSXAttribute_visitor_wraps_iff [of
      "Some (JSXExpressionContainer (CallExpression (Identifier ''isDisabled'') []))"
      "JSXIdentifier ''disabled''" False]
    JSXAttribute_visitor_wraps_iff [of
      "Some (JSXExpressionContainer (Identifier ''count''))" "JSXIdentifier ''value''" False]
    JSXAttribute_visitor_wraps_iff [of "Some (StringLiteral ''t'')" "JSXIdentifier ''title''" False]
    JSXAttribute_visitor_wraps_iff [of None "JSXIdentifier ''checked''" False]
  by (simp add: shouldSkip_def startsWith_def attrName_def)

text \<open>
  C5. When the identifier ends in neither \<^verbatim>\<open>.jsx\<close> nor \<^verbatim>\<open>.tsx\<close>, \<open>transform\<close> returns the
  sentinel \<open>None\<close> and has called no collaborator: the parser is not run, whatever it
  would have answered. When the parser fails, the result is the sentinel too, and the
  failure is not passed on: no error is raised, the parser was called, the generator was
  not.
\<close>

theorem transform_not_applicable:
  "(\<not> endsWith ident ''.jsx'' \<and> \<not> endsWith ident ''.tsx''
      \<longrightarrow> transform parse crawl generate code ident = Inr ([], None))
   \<and> (parse code = None \<longrightarrow>
        (\<exists>calls. transform parse crawl generate code ident = Inr (calls, None)))
   \<and> (parse code = None \<and> (endsWith ident ''.jsx'' \<or> endsWith ident ''.tsx'')
      \<longrightarrow> transform parse crawl generate code ident = Inr ([Parse code], None))"
  by (auto simp add: transform_def)

theorem transform_not_applicable_witness:
  "\<not> endsWith ''main.ts'' ''.jsx'' \<and> \<not> endsWith ''main.ts'' ''.tsx''
   \<and> transform (\<lambda>s. Some (Other ''File'' [])) (\<lambda>n. Some (TypeError ''no scopes''))
        (\<lambda>n opts s. Inr \<lparr>code_of = s, map_of = ()\<rparr>)
        ''let x = f()'' ''main.ts'' = Inr ([], None)
   \<and> endsWith ''App.jsx'' ''.jsx''
   \<and> transform (\<lambda>s. None) (\<lambda>n. None) (\<lambda>n opts s. Inr \<lparr>code_of = s, map_of = ()\<rparr>)
        ''<a b={'' ''App.jsx'' = Inr ([Parse ''<a b={''], None)"
  using transform_not_applicable [of "''main.ts''" "\<lambda>s. Some (Other ''File'' [])"
      "\<lambda>n. Some (TypeError ''no scopes'')"
      "\<lambda>n opts s. Inr \<lparr>code_of = s, map_of = ()\<rparr>" "''let x = f()''"]
    transform_not_applicable [of "''App.jsx''" "\<lambda>s. None" "\<lambda>n. None"
      "\<lambda>n opts s. Inr \<lparr>code_of = s, map_of = ()\<rparr>" "''<a b={''"]
  by (simp add: endsWith_def)

text \<open>
  C7. \<open>containsCall\<close> of an object expression is true iff one of its entries is a
  property entry whose value contains a call. A spread entry adds nothing to the answer,
  wherever it stands among the entries, and neither does a shorthand entry: the parser
  gives the shorthand entry \<^verbatim>\<open>{x}\<close> the identifier \<^verbatim>\<open>x\<close> as key and as value, and an
  identifier contains no call.
\<close>

theorem containsCall_object_entries:
  "containsCall (ObjectExpression properties) =
     (\<exists>key val computed shorthand.
        ObjectProperty key val computed shorthand \<in> set properties \<and> containsCall val)
   \<and> containsCall (ObjectExpression (before @ [SpreadElement argument] @ after)) =
       containsCall (ObjectExpression (before @ after))
   \<and> containsCall (ObjectExpression
         (before @ [ObjectProperty (Identifier x) (Identifier x) False True] @ after)) =
       containsCall (ObjectExpression (before @ after))"
  unfolding containsCall_ObjectExpression
  by (simp add: list_ex_propertyCall) (simp add: list_ex_iff propertyCall_def)

theorem containsCall_object_entries_witness:
  "\<not> containsCall (ObjectExpression [SpreadElement (CallExpression (Identifier ''f'') [])])
   \<and> \<not> containsCall (ObjectExpression [ObjectProperty (Identifier ''a'') (Identifier ''a'') False True])
   \<and> containsCall (ObjectExpression
        [SpreadElement (CallExpression (Identifier ''f'') []),
         ObjectProperty (Identifier ''a'') (CallExpression (Identifier ''g'') []) False False])"
  using containsCall_object_entries [of "[]" "[]" "CallExpression (Identifier ''f'') []" "[]"]
    containsCall_object_entries [of
      "[SpreadElement (CallExpression (Identifier ''f'') []),
         ObjectProperty (Identifier ''a'') (CallExpression (Identifier ''g'') []) False False]"
      "[]" "CallExpression (Identifier ''f'') []" "[]" "''a''"]
  by simp

text \<open>
  C8. When an attribute qualifies, the visitor puts into the container a zero-parameter
  arrow function whose body is the original expression itself. The tree after the whole
  walk is \<open>spec_thunked\<close> of the tree before it: every node is rebuilt with its own fields,
  and the only difference is the thunk around the expression of each qualifying
  attribute. So it is for the call of line 111: it raises when the scopes cannot be
  built, and returns that tree, with the flag, otherwise.
\<close>

theorem traverse_only_inserts_thunks:
  "(\<not> isJSXEmptyExpression expr \<and> \<not> shouldSkip (attrName name) expr \<and> containsCall expr
      \<longrightarrow> JSXAttribute_visitor name (Some (JSXExpressionContainer expr)) changed =
            (Some (JSXExpressionContainer (ArrowFunctionExpression [] expr)), True))
   \<and> fst (traverseNode n ch) = spec_thunked n
   \<and> traverse crawl n ch =
       (case crawl n of
          Some e \<Rightarrow> Inl e
        | None \<Rightarrow> Inr (spec_thunked n, ch \<or> spec_thunked n \<noteq> n))"
  by (simp add: visitor_wrap traverseNode_thunked traverse_thunked)

theorem traverse_only_inserts_thunks_witness:
  "containsCall (CallExpression (Identifier ''f'')
       [Other ''JSXElement'' [Other ''JSXOpeningElement''
          [JSXAttribute (JSXIdentifier ''y'')
             (Some (JSXExpressionContainer (CallExpression (Identifier ''g'') [])))]]])
   \<and> fst (traverseNode
       (Other ''JSXOpeningElement''
          [JSXAttribute (JSXIdentifier ''x'')
             (Some (JSXExpressionContainer
                (CallExpression (Identifier ''f'')
                   [Other ''JSXElement'' [Other ''JSXOpeningElement''
                      [JSXAttribute (JSXIdentifier ''y'')
                         (Some (JSXExpressionContainer
                            (CallExpression (Identifier ''g'') [])))]]]))),
           JSXAttribute (JSXIdentifier ''id'') (Some (StringLiteral ''a'')),
           JSXAttribute (JSXIdentifier ''value'')
             (Some (JSXExpressionContainer (Identifier ''count'')))]) False) =
       Other ''JSXOpeningElement''
          [JSXAttribute (JSXIdentifier ''x'')
             (Some (JSXExpressionContainer
                (ArrowFunctionExpression []
                   (CallExpression (Identifier ''f'')
                      [Other ''JSXElement'' [Other ''JSXOpeningElement''
                         [JSXAttribute (JSXIdentifier ''y'')
                            (Some (JSXExpressionContainer
                               (ArrowFunctionExpression []
                                  (CallExpression (Identifier ''g'') []))))]]])))),
           JSXAttribute (JSXIdentifier ''id'') (Some (StringLiteral ''a'')),
           JSXAttribute (JSXIdentifier ''value'')
             (Some (JSXExpressionContainer (Identifier ''count'')))]
   \<and> traverse (\<lambda>n. None)
       (JSXAttribute (JSXIdentifier ''disabled'')
          (Some (JSXExpressionContainer (CallExpression (Identifier ''isDisabled'') []))))
       False =
     Inr (JSXAttribute (JSXIdentifier ''disabled'')
            (Some (JSXExpressionContainer
               (ArrowFunctionExpression [] (CallExpression (Identifier ''isDisabled'') [])))),
          True)"
  using traverse_only_inserts_thunks [of
      "CallExpression (Identifier ''isDisabled'') []" "JSXIdentifier ''disabled''" False
      "JSXAttribute (JSXIdentifier ''disabled'')
          (Some (JSXExpressionContainer (CallExpression (Identifier ''isDisabled'') [])))"
      False "\<lambda>n. None"]
    traverse_only_inserts_thunks [of
      "CallExpression (Identifier ''f'')
         [Other ''JSXElement'' [Other ''JSXOpeningElement''
            [JSXAttribute (JSXIdentifier ''y'')
               (Some (JSXExpressionContainer (CallExpression (Identifier ''g'') [])))]]]"
      "JSXIdentifier ''x''" False
      "Other ''JSXOpeningElement''
          [JSXAttribute (JSXIdentifier ''x'')
             (Some (JSXExpressionContainer
                (CallExpression (Identifier ''f'')
                   [Other ''JSXElement'' [Other ''JSXOpeningElement''
                      [JSXAttribute (JSXIdentifier ''y'')
                         (Some (JSXExpressionContainer
                            (CallExpression (Identifier ''g'') [])))]]]))),
           JSXAttribute (JSXIdentifier ''id'') (Some (StringLiteral ''a'')),
           JSXAttribute (JSXIdentifier ''value'')
             (Some (JSXExpressionContainer (Identifier ''count'')))]" False]
  by (simp add: traverseNode_thunked shouldSkip_def startsWith_def attrName_def
      del: traverseNode.simps)






text \<open>
  C9. The canonical name of a namespaced attribute is \<^verbatim>\<open>namespace:local\<close>, and the visitor
  classifies the attribute by \<open>shouldSkip\<close> of that joined string: when it holds, the
  attribute is left alone; when it does not, and the expression contains a call, the
  attribute is wrapped. A namespaced attribute whose joined name begins with \<open>on\<close> and
  is longer than two characters (such as \<^verbatim>\<open>on:click\<close>) is therefore exempt.
\<close>

theorem namespaced_name_skip:
  "attrName (JSXNamespacedName namespace local) = namespace @ '':'' @ local
   \<and> (shouldSkip (namespace @ '':'' @ local) expr \<longrightarrow>
        JSXAttribute_visitor (JSXNamespacedName namespace local)
          (Some (JSXExpressionContainer expr)) changed =
        (Some (JSXExpressionContainer expr), changed))
   \<and> (startsWith (namespace @ '':'' @ local) ''on'' \<and> 2 < length (namespace @ '':'' @ local) \<longrightarrow>
        shouldSkip (namespace @ '':'' @ local) expr)
   \<and> (\<not> isJSXEmptyExpression expr \<and> \<not> shouldSkip (namespace @ '':'' @ local) expr
        \<and> containsCall expr \<longrightarrow>
        JSXAttribute_visitor (JSXNamespacedName namespace local)
          (Some (JSXExpressionContainer expr)) changed =
        (Some (JSXExpressionContainer (ArrowFunctionExpression [] expr)), True))"
proof -
  have n: "attrName (JSXNamespacedName namespace local) = namespace @ '':'' @ local"
    by (simp add: attrName_def)
  show ?thesis
    using visitor_skip [of "JSXNamespacedName namespace local" expr changed]
      visitor_wrap [of expr "JSXNamespacedName namespace local" changed]
    by (simp add: n) (simp add: shouldSkip_def)
qed

theorem namespaced_name_skip_witness:
  "attrName (JSXNamespacedName ''on'' ''click'') = ''on:click''
   \<and> startsWith ''on:click'' ''on'' \<and> 2 < length ''on:click''
   \<and> containsCall (CallExpression (Identifier ''handle'') [])
   \<and> JSXAttribute_visitor (JSXNamespacedName ''on'' ''click'')
        (Some (JSXExpressionContainer (CallExpression (Identifier ''handle'') []))) False =
      (Some (JSXExpressionContainer (CallExpression (Identifier ''handle'') [])), False)
   \<and> \<not> shouldSkip ''xlink:href'' (CallExpression (Identifier ''url'') [])
   \<and> JSXAttribute_visitor (JSXNamespacedName ''xlink'' ''href'')
        (Some (JSXExpressionContainer (CallExpression (Identifier ''url'') []))) False =
      (Some (JSXExpressionContainer
         (ArrowFunctionExpression [] (CallExpression (Identifier ''url'') []))), True)"
  using namespaced_name_skip [of "''on''" "''click''" "CallExpression (Identifier ''handle'') []" False]
    namespaced_name_skip [of "''xlink''" "''href''" "CallExpression (Identifier ''url'') []" False]
  by (simp add: startsWith_def) (simp add: shouldSkip_def startsWith_def)

text \<open>
  C10. The exemption of event handlers is case sensitive: \<open>startsWith name ''on''\<close>
  holds only of names whose first two characters are the lower-case letters \<open>o\<close> and
  \<open>n\<close>. For a name without that prefix, \<open>shouldSkip\<close> is decided by the other three
  rules alone; and an attribute whose name has no such prefix and is not \<open>ref\<close>, and
  whose expression is no function and contains a call, is wrapped.
\<close>

theorem on_prefix_case_sensitive:
  "(\<not> startsWith name ''on'' \<longrightarrow>
      shouldSkip name expr =
        (name = ''ref'' \<or> isArrowFunctionExpression expr \<or> isFunctionExpression expr))
   \<and> (\<not> startsWith (attrName nm) ''on'' \<and> attrName nm \<noteq> ''ref''
        \<and> \<not> isArrowFunctionExpression expr \<and> \<not> isFunctionExpression expr
        \<and> containsCall expr \<longrightarrow>
      JSXAttribute_visitor nm (Some (JSXExpressionContainer expr)) changed =
        (Some (JSXExpressionContainer (ArrowFunctionExpression [] expr)), True))
   \<and> (startsWith name ''on'' = (\<exists>rest. name = CHR ''o'' # CHR ''n'' # rest))"
proof -
  have 1: "\<not> startsWith name ''on'' \<longrightarrow>
      shouldSkip name expr =
        (name = ''ref'' \<or> isArrowFunctionExpression expr \<or> isFunctionExpression expr)"
    by (simp add: shouldSkip_def)
  have e: "\<not> isJSXEmptyExpression expr" if "containsCall expr"
    using that by (cases expr) auto
  have 2: "\<not> startsWith (attrName nm) ''on'' \<and> attrName nm \<noteq> ''ref''
        \<and> \<not> isArrowFunctionExpression expr \<and> \<not> isFunctionExpression expr
        \<and> containsCall expr \<longrightarrow>
      JSXAttribute_visitor nm (Some (JSXExpressionContainer expr)) changed =
        (Some (JSXExpressionContainer (ArrowFunctionExpression [] expr)), True)"
    using e by (auto simp: JSXAttribute_visitor_def shouldSkip_def)
  have 3: "startsWith name ''on'' = (\<exists>rest. name = CHR ''o'' # CHR ''n'' # rest)"
  proof (cases name)
    case Nil
    then show ?thesis by (simp add: startsWith_def)
  next
    case (Cons a as)
    then show ?thesis by (cases as) (auto simp: startsWith_def)
  qed
  from 1 2 3 show ?thesis by blast
qed

theorem on_prefix_case_sensitive_witness:
  "\<not> startsWith ''OnClick'' ''on''
   \<and> \<not> shouldSkip ''OnClick'' (CallExpression (Identifier ''handleClick'') [])
   \<and> JSXAttribute_visitor (JSXIdentifier ''OnClick'')
        (Some (JSXExpressionContainer (CallExpression (Identifier ''handleClick'') []))) False =
      (Some (JSXExpressionContainer
         (ArrowFunctionExpression [] (CallExpression (Identifier ''handleClick'') []))), True)"
  using on_prefix_case_sensitive [of "''OnClick''" "CallExpression (Identifier ''handleClick'') []"
      "JSXIdentifier ''OnClick''" False]
  by (simp add: attrName_def)

end
